theory Spec2Isabelle
  imports Main "HOL-Library.Word"
begin

unbundle bit_operations_syntax

section \<open>Values of the JavaScript runtime\<close>

text \<open>
  A \<open>BufferSource\<close> is a sequence of octets. A JavaScript string is a sequence of UTF-16
  code units; error messages and header names are fixed ASCII texts and are kept as
  \<open>string\<close>.
\<close>

type_synonym byte = "8 word"
type_synonym bytes = "byte list"
type_synonym u32 = "32 word"
type_synonym jsstring = "16 word list"

text \<open>The code units of an ASCII (Latin-1) text.\<close>

definition js :: "string \<Rightarrow> jsstring" where
  "js s = map (\<lambda>c. of_nat (of_char c)) s"

text \<open>
  The argument of \<open>lineBotMiddleware\<close> is declared \<open>string\<close>, but the function tests its
  run-time type, so the model takes any JavaScript value. Only the type tag of a value that
  is not a string is ever inspected.
\<close>

datatype jsvalue =
    JUndefined
  | JNull
  | JBoolean bool
  | JNumber
  | JBigInt
  | JSymbol
  | JString jsstring
  | JFunction
  | JObject

fun typeof :: "jsvalue \<Rightarrow> string" where
  "typeof JUndefined = ''undefined''"
| "typeof JNull = ''object''"
| "typeof (JBoolean b) = ''boolean''"
| "typeof JNumber = ''number''"
| "typeof JBigInt = ''bigint''"
| "typeof JSymbol = ''symbol''"
| "typeof (JString s) = ''string''"
| "typeof JFunction = ''function''"
| "typeof JObject = ''object''"

fun string_of :: "jsvalue \<Rightarrow> jsstring" where
  "string_of (JString s) = s"
| "string_of _ = []"

text \<open>
  Thrown values: \<open>new Error(message)\<close>, a \<open>TypeError\<close>, a \<open>DOMException\<close> (given by its
  name) and hono's \<open>new HTTPException(status, {message})\<close>. A function that may throw, or an
  awaited promise that may reject, returns \<open>jserror + 'a\<close>.
\<close>

datatype jserror =
    Error string
  | TypeError string
  | DOMException string
  | HTTPException nat string

section \<open>Platform primitives\<close>

subsection \<open>\<open>TextEncoder.encode\<close>: UTF-8 of a sequence of UTF-16 code units\<close>

text \<open>A surrogate that is not part of a pair is encoded as U+FFFD.\<close>

fun TextEncoder_encode :: "jsstring \<Rightarrow> bytes" where
  "TextEncoder_encode [] = []"
| "TextEncoder_encode (c # cs) =
     (let u = unat c in
      if u < 0x80 then of_nat u # TextEncoder_encode cs
      else if u < 0x800 then
        of_nat (0xC0 + u div 64) # of_nat (0x80 + u mod 64) # TextEncoder_encode cs
      else if 0xD800 \<le> u \<and> u < 0xDC00 then
        (case cs of
           [] \<Rightarrow> [0xEF, 0xBF, 0xBD]
         | d # ds \<Rightarrow>
             (let v = unat d in
              if 0xDC00 \<le> v \<and> v < 0xE000 then
                (let cp = 0x10000 + (u - 0xD800) * 0x400 + (v - 0xDC00)
                 in of_nat (0xF0 + cp div 262144) # of_nat (0x80 + cp div 4096 mod 64)
                    # of_nat (0x80 + cp div 64 mod 64) # of_nat (0x80 + cp mod 64)
                    # TextEncoder_encode ds)
              else 0xEF # 0xBF # 0xBD # TextEncoder_encode cs))
      else if 0xDC00 \<le> u \<and> u < 0xE000 then
        0xEF # 0xBF # 0xBD # TextEncoder_encode cs
      else
        of_nat (0xE0 + u div 4096) # of_nat (0x80 + u div 64 mod 64)
        # of_nat (0x80 + u mod 64) # TextEncoder_encode cs)"

subsection \<open>SHA-256 (FIPS 180-4) and HMAC (RFC 2104)\<close>

text \<open>
  The round constants are the first 32 bits of the fractional parts of the cube roots of the
  first 64 primes, the initial state those of the square roots of the first 8 primes.
\<close>

definition K256 :: "u32 list" where
  "K256 =
   [1116352408, 1899447441, 3049323471, 3921009573, 961987163, 1508970993,
    2453635748, 2870763221, 3624381080, 310598401, 607225278, 1426881987,
    1925078388, 2162078206, 2614888103, 3248222580, 3835390401, 4022224774,
    264347078, 604807628, 770255983, 1249150122, 1555081692, 1996064986,
    2554220882, 2821834349, 2952996808, 3210313671, 3336571891, 3584528711,
    113926993, 338241895, 666307205, 773529912, 1294757372, 1396182291,
    1695183700, 1986661051, 2177026350, 2456956037, 2730485921, 2820302411,
    3259730800, 3345764771, 3516065817, 3600352804, 4094571909, 275423344,
    430227734, 506948616, 659060556, 883997877, 958139571, 1322822218,
    1537002063, 1747873779, 1955562222, 2024104815, 2227730452, 2361852424,
    2428436474, 2756734187, 3204031479, 3329325298]"

definition H256 :: "u32 list" where
  "H256 =
   [1779033703, 3144134277, 1013904242, 2773480762,
    1359893119, 2600822924, 528734635, 1541459225]"

definition rotr :: "nat \<Rightarrow> u32 \<Rightarrow> u32" where
  "rotr n x = drop_bit n x OR push_bit (32 - n) x"

definition Ch :: "u32 \<Rightarrow> u32 \<Rightarrow> u32 \<Rightarrow> u32" where
  "Ch x y z = (x AND y) XOR (NOT x AND z)"

definition Maj :: "u32 \<Rightarrow> u32 \<Rightarrow> u32 \<Rightarrow> u32" where
  "Maj x y z = (x AND y) XOR (x AND z) XOR (y AND z)"

definition Sigma0 :: "u32 \<Rightarrow> u32" where
  "Sigma0 x = rotr 2 x XOR rotr 13 x XOR rotr 22 x"

definition Sigma1 :: "u32 \<Rightarrow> u32" where
  "Sigma1 x = rotr 6 x XOR rotr 11 x XOR rotr 25 x"

definition sigma0 :: "u32 \<Rightarrow> u32" where
  "sigma0 x = rotr 7 x XOR rotr 18 x XOR drop_bit 3 x"

definition sigma1 :: "u32 \<Rightarrow> u32" where
  "sigma1 x = rotr 17 x XOR rotr 19 x XOR drop_bit 10 x"

fun be32 :: "bytes \<Rightarrow> u32" where
  "be32 [a, b, c, d] =
     push_bit 24 (ucast a) OR push_bit 16 (ucast b) OR push_bit 8 (ucast c) OR ucast d"
| "be32 _ = 0"

definition bytes_of_u32 :: "u32 \<Rightarrow> bytes" where
  "bytes_of_u32 w = [ucast (drop_bit 24 w), ucast (drop_bit 16 w), ucast (drop_bit 8 w), ucast w]"

text \<open>\<open>chunks n k xs\<close>: the first \<open>n\<close> consecutive pieces of \<open>xs\<close>, each \<open>k\<close> long.\<close>

primrec chunks :: "nat \<Rightarrow> nat \<Rightarrow> 'a list \<Rightarrow> 'a list list" where
  "chunks 0 k xs = []"
| "chunks (Suc n) k xs = take k xs # chunks n k (drop k xs)"

text \<open>
  One round per constant. The message schedule is kept as a window of sixteen words: its
  head is the word of the current round, and the word sixteen rounds ahead is appended.
\<close>

fun rounds :: "u32 list \<Rightarrow> u32 list \<Rightarrow> u32 list \<Rightarrow> u32 list" where
  "rounds (k # ks) w [a, b, c, d, e, f, g, h] =
     (let t1 = h + Sigma1 e + Ch e f g + k + w ! 0;
          t2 = Sigma0 a + Maj a b c
      in rounds ks (tl w @ [sigma1 (w ! 14) + w ! 9 + sigma0 (w ! 1) + w ! 0])
                [t1 + t2, a, b, c, d + t1, e, f, g])"
| "rounds _ w st = st"

definition compress :: "bytes \<Rightarrow> u32 list \<Rightarrow> u32 list" where
  "compress block st = map2 (+) st (rounds K256 (map be32 (chunks 16 4 block)) st)"

text \<open>
  Padding: the octet \<open>0x80\<close>, zeros up to 56 modulo 64, and the length of the message in
  bits as eight octets, most significant first.
\<close>

definition pad :: "bytes \<Rightarrow> bytes" where
  "pad m = m @ [0x80] @ replicate ((119 - length m mod 64) mod 64) 0
             @ map (\<lambda>i. of_nat (8 * length m div 256 ^ (7 - i) mod 256)) [0..<8]"

definition sha256 :: "bytes \<Rightarrow> bytes" where
  "sha256 m =
     (let p = pad m
      in concat (map bytes_of_u32 (fold compress (chunks (length p div 64) 64 p) H256)))"

definition hmac_sha256 :: "bytes \<Rightarrow> bytes \<Rightarrow> bytes" where
  "hmac_sha256 key m =
     (let k0 = (if length key > 64 then sha256 key else key);
          k = k0 @ replicate (64 - length k0) 0
      in sha256 (map (\<lambda>b. b XOR 0x5c) k @ sha256 (map (\<lambda>b. b XOR 0x36) k @ m)))"

subsection \<open>Web Crypto: HMAC keys, \<open>importKey\<close> and \<open>verify\<close>\<close>

text \<open>
  The module creates and uses keys of one kind only, raw HMAC keys with hash SHA-256, so a
  \<open>CryptoKey\<close> is modelled as such a key: its octets, its usages and the extractable flag.
\<close>

datatype key_usage = Sign | Verify

record CryptoKey =
  key_data :: bytes
  key_extractable :: bool
  key_usages :: "key_usage list"

text \<open>
  \<open>crypto.subtle.importKey("raw", keyData, {name: "HMAC", hash: {name: "SHA-256"}},
  extractable, usages)\<close>. The HMAC import operation of the Web Cryptography API rejects key
  data of length zero with a \<open>DataError\<close>, and a secret key without usages with a
  \<open>SyntaxError\<close>.
\<close>

definition subtle_importKey :: "bytes \<Rightarrow> bool \<Rightarrow> key_usage list \<Rightarrow> jserror + CryptoKey" where
  "subtle_importKey keyData extractable usages =
     (if keyData = [] then Inl (DOMException ''DataError'')
      else if usages = [] then Inl (DOMException ''SyntaxError'')
      else Inr \<lparr>key_data = keyData, key_extractable = extractable, key_usages = usages\<rparr>)"

text \<open>
  \<open>crypto.subtle.verify("HMAC", key, signature, data)\<close>: a key without the usage
  \<open>verify\<close> is refused with an \<open>InvalidAccessError\<close>; otherwise the result is whether the MAC
  of \<open>data\<close> under the key is the octet sequence \<open>signature\<close>.
\<close>

definition subtle_verify :: "CryptoKey \<Rightarrow> bytes \<Rightarrow> bytes \<Rightarrow> jserror + bool" where
  "subtle_verify key signature data =
     (if Verify \<notin> set (key_usages key) then Inl (DOMException ''InvalidAccessError'')
      else Inr (hmac_sha256 (key_data key) data = signature))"

subsection \<open>\<open>atob\<close> and hono's \<open>decodeBase64\<close>\<close>

definition is_ascii_whitespace :: "16 word \<Rightarrow> bool" where
  "is_ascii_whitespace c = (c = 0x09 \<or> c = 0x0A \<or> c = 0x0C \<or> c = 0x0D \<or> c = 0x20)"

text \<open>The value of a code unit in the Base64 alphabet \<open>A-Z a-z 0-9 + /\<close>.\<close>

definition b64_val :: "16 word \<Rightarrow> nat option" where
  "b64_val c =
     (let n = unat c in
      if 65 \<le> n \<and> n \<le> 90 then Some (n - 65)
      else if 97 \<le> n \<and> n \<le> 122 then Some (n - 71)
      else if 48 \<le> n \<and> n \<le> 57 then Some (n + 4)
      else if n = 43 then Some 62
      else if n = 47 then Some 63
      else None)"

text \<open>Removes one or two \<open>=\<close> from the end.\<close>

definition strip_padding :: "jsstring \<Rightarrow> jsstring" where
  "strip_padding d =
     (if d \<noteq> [] \<and> last d = 0x3D then
        (if butlast d \<noteq> [] \<and> last (butlast d) = 0x3D then butlast (butlast d)
         else butlast d)
      else d)"

text \<open>
  Four sextets give three octets; a rest of three sextets gives two octets and a rest of two
  gives one, the surplus bits being discarded.
\<close>

fun decode_sextets :: "nat list \<Rightarrow> bytes" where
  "decode_sextets (a # b # c # d # rest) =
     (let n = ((a * 64 + b) * 64 + c) * 64 + d
      in of_nat (n div 256 div 256) # of_nat (n div 256) # of_nat n # decode_sextets rest)"
| "decode_sextets [a, b, c] =
     (let n = ((a * 64 + b) * 64 + c) div 4 in [of_nat (n div 256), of_nat n])"
| "decode_sextets [a, b] = [of_nat ((a * 64 + b) div 16)]"
| "decode_sextets _ = []"

text \<open>
  The forgiving-base64 decode of the HTML standard, which \<open>atob\<close> applies: ASCII whitespace
  is dropped; padding is removed when the length is a multiple of four; a length of one
  modulo four, or a code unit outside the alphabet, is a failure.
\<close>

definition forgiving_base64_decode :: "jsstring \<Rightarrow> bytes option" where
  "forgiving_base64_decode data =
     (let d1 = filter (\<lambda>c. \<not> is_ascii_whitespace c) data;
          d2 = (if length d1 mod 4 = 0 then strip_padding d1 else d1)
      in if length d2 mod 4 = 1 then None
         else if \<exists>c \<in> set d2. b64_val c = None then None
         else Some (decode_sextets (map (\<lambda>c. the (b64_val c)) d2)))"

text \<open>\<open>atob\<close> returns a binary string, one code unit per octet, or throws.\<close>

definition atob :: "jsstring \<Rightarrow> jserror + jsstring" where
  "atob data =
     (case forgiving_base64_decode data of
        None \<Rightarrow> Inl (DOMException ''InvalidCharacterError'')
      | Some bs \<Rightarrow> Inr (map ucast bs))"

text \<open>
  \<open>decodeBase64\<close> of \<open>hono/utils/encode\<close>: \<open>atob(str)\<close>, then every \<open>charCodeAt(i)\<close> is stored
  into a \<open>Uint8Array\<close> of the same length.
\<close>

definition decodeBase64 :: "jsstring \<Rightarrow> jserror + bytes" where
  "decodeBase64 str =
     (case atob str of
        Inl e \<Rightarrow> Inl e
      | Inr binary \<Rightarrow> Inr (map ucast binary))"

section \<open>The module\<close>

subsection \<open>\<open>importKeyFromChannelSecret\<close>\<close>

definition importKeyFromChannelSecret :: "jsstring \<Rightarrow> jserror + CryptoKey" where
  "importKeyFromChannelSecret channelSecret =
     (let keyBytes = TextEncoder_encode channelSecret
      in subtle_importKey keyBytes False [Verify])"

subsection \<open>\<open>validateSignature\<close>\<close>

definition validateSignature :: "bytes \<Rightarrow> CryptoKey \<Rightarrow> jsstring \<Rightarrow> jserror + bool" where
  "validateSignature body key signature =
     (case decodeBase64 signature of
        Inl e \<Rightarrow> Inl e
      | Inr signatureBytes \<Rightarrow> subtle_verify key signatureBytes body)"

subsection \<open>The request seen by the interceptor\<close>

text \<open>
  Of hono's context \<open>c\<close> the interceptor uses \<open>c.req.header\<close> and \<open>c.req.arrayBuffer\<close> only.
  \<open>req_headers\<close> is the \<open>Headers\<close> object of the request, keyed by lower-case name;
  \<open>req_body\<close> is what reading the body gives: its octets, or the message of the failure.
\<close>

record Context =
  req_headers :: "string \<rightharpoonup> jsstring"
  req_body :: "string + bytes"

definition ascii_lower :: "char \<Rightarrow> char" where
  "ascii_lower ch =
     (let n = (of_char ch :: nat) in if 65 \<le> n \<and> n \<le> 90 then char_of (n + 32) else ch)"

text \<open>\<open>c.req.header(name)\<close>: \<open>Headers.get\<close> matches names without regard to case.\<close>

definition header :: "Context \<Rightarrow> string \<Rightarrow> jsstring option" where
  "header c name = req_headers c (map ascii_lower name)"

text \<open>\<open>await c.req.arrayBuffer()\<close>: a body that cannot be read rejects with a \<open>TypeError\<close>.\<close>

definition arrayBuffer :: "Context \<Rightarrow> jserror + bytes" where
  "arrayBuffer c = (case req_body c of Inl m \<Rightarrow> Inl (TypeError m) | Inr b \<Rightarrow> Inr b)"

text \<open>\<open>!signature\<close> for a value that is a string or \<open>undefined\<close>.\<close>

definition falsy :: "jsstring option \<Rightarrow> bool" where
  "falsy v = (v = None \<or> v = Some [])"

subsection \<open>\<open>lineBotMiddleware\<close>\<close>

text \<open>
  What the interceptor does to its surroundings is recorded as a list of events, in the
  order of the statements of the source: the call that starts the key derivation, the
  header lookup, the body read, the await of the key promise, the call of
  \<open>validateSignature\<close> with its three arguments, and the call of \<open>next\<close>.
\<close>

datatype event =
    CallImportKey jsstring
  | CallHeader string
  | CallArrayBuffer
  | AwaitCryptoKey
  | CallValidateSignature bytes CryptoKey jsstring
  | CallNext

text \<open>
  The handler that \<open>lineBotMiddleware\<close> returns is a closure over the promise \<open>cryptoKey\<close>;
  the promise is represented by what it settles to.
\<close>

record closure =
  cryptoKey :: "jserror + CryptoKey"

text \<open>
  The returned \<open>async (c, next) => ...\<close>. The argument \<open>nxt\<close> is the outcome of awaiting
  \<open>next()\<close>: the downstream handlers complete, or fail with some error.
\<close>

definition handler ::
  "closure \<Rightarrow> Context \<Rightarrow> jserror + unit \<Rightarrow> (jserror + unit) \<times> event list" where
  "handler mw c nxt =
     (let signature = header c ''x-line-signature'' in
      if falsy signature then
        (Inl (HTTPException 401 ''no signature''), [CallHeader ''x-line-signature''])
      else
        (case arrayBuffer c of
           Inl e \<Rightarrow> (Inl e, [CallHeader ''x-line-signature'', CallArrayBuffer])
         | Inr body \<Rightarrow>
             (case cryptoKey mw of
                Inl e \<Rightarrow>
                  (Inl e, [CallHeader ''x-line-signature'', CallArrayBuffer, AwaitCryptoKey])
              | Inr key \<Rightarrow>
                  (case validateSignature body key (the signature) of
                     Inl e \<Rightarrow>
                       (Inl e,
                        [CallHeader ''x-line-signature'', CallArrayBuffer, AwaitCryptoKey,
                         CallValidateSignature body key (the signature)])
                   | Inr isValid \<Rightarrow>
                       if \<not> isValid then
                         (Inl (HTTPException 401 ''signature validation failed''),
                          [CallHeader ''x-line-signature'', CallArrayBuffer, AwaitCryptoKey,
                           CallValidateSignature body key (the signature)])
                       else
                         (nxt,
                          [CallHeader ''x-line-signature'', CallArrayBuffer, AwaitCryptoKey,
                           CallValidateSignature body key (the signature), CallNext])))))"

definition lineBotMiddleware :: "jsvalue \<Rightarrow> (jserror + closure) \<times> event list" where
  "lineBotMiddleware channelSecret =
     (if typeof channelSecret \<noteq> ''string'' then (Inl (Error ''no channel secret''), [])
      else
        (Inr \<lparr>cryptoKey = importKeyFromChannelSecret (string_of channelSecret)\<rparr>,
         [CallImportKey (string_of channelSecret)]))"

subsection \<open>An application: one interceptor, then requests one after another\<close>

fun serve ::
  "closure \<Rightarrow> (Context \<times> (jserror + unit)) list \<Rightarrow> (jserror + unit) list \<times> event list" where
  "serve mw [] = ([], [])"
| "serve mw ((c, nxt) # rest) =
     (let (r, es) = handler mw c nxt;
          (rs, es') = serve mw rest
      in (r # rs, es @ es'))"

definition app ::
  "jsvalue \<Rightarrow> (Context \<times> (jserror + unit)) list
     \<Rightarrow> (jserror + (jserror + unit) list) \<times> event list" where
  "app channelSecret requests =
     (case lineBotMiddleware channelSecret of
        (Inl e, es) \<Rightarrow> (Inl e, es)
      | (Inr mw, es) \<Rightarrow> (let (rs, es') = serve mw requests in (Inr rs, es @ es')))"

section \<open>The reference signer\<close>

text \<open>
  \<open>sign\<close> is not part of the module: it is the reference computation of the round-trip
  property, what the sender does to produce the value of the signature header. Following
  the words of the specification, it is the HMAC-SHA256 digest of the body under the UTF-8
  octets of the secret, encoded in standard Base64 with padding (RFC 4648).
\<close>

definition b64_char :: "nat \<Rightarrow> 16 word" where
  "b64_char i =
     of_nat (if i < 26 then 65 + i else if i < 52 then 71 + i else if i < 62 then i - 4
             else if i = 62 then 43 else 47)"

fun encode_sextets :: "bytes \<Rightarrow> nat list" where
  "encode_sextets (a # b # c # rest) =
     (let n = (unat a * 256 + unat b) * 256 + unat c
      in n div 64 div 64 div 64 # n div 64 div 64 mod 64 # n div 64 mod 64 # n mod 64
         # encode_sextets rest)"
| "encode_sextets [a, b] =
     (let n = (unat a * 256 + unat b) * 4 in [n div 64 div 64, n div 64 mod 64, n mod 64])"
| "encode_sextets [a] = (let n = unat a * 16 in [n div 64, n mod 64])"
| "encode_sextets [] = []"

definition encodeBase64 :: "bytes \<Rightarrow> jsstring" where
  "encodeBase64 bs =
     map b64_char (encode_sextets bs) @ replicate ((3 - length bs mod 3) mod 3) 0x3D"

definition sign :: "bytes \<Rightarrow> jsstring \<Rightarrow> jsstring" where
  "sign b s = encodeBase64 (hmac_sha256 (TextEncoder_encode s) b)"

text \<open>Deriving the key from a secret and verifying with it; a failed derivation propagates.\<close>

definition verify_with_secret :: "bytes \<Rightarrow> jsstring \<Rightarrow> jsstring \<Rightarrow> jserror + bool" where
  "verify_with_secret b s signature =
     (case importKeyFromChannelSecret s of
        Inl e \<Rightarrow> Inl e
      | Inr key \<Rightarrow> validateSignature b key signature)"

section \<open>Notions used to state the properties\<close>

text \<open>
  Signature verification succeeds for a request: the header is there, the body can be read,
  the key promise has fulfilled and \<open>validateSignature\<close> resolves to \<open>true\<close>.
\<close>

definition verified :: "closure \<Rightarrow> Context \<Rightarrow> bool" where
  "verified mw c =
     (case header c ''x-line-signature'' of
        None \<Rightarrow> False
      | Some signature \<Rightarrow>
          (case arrayBuffer c of
             Inl e \<Rightarrow> False
           | Inr body \<Rightarrow>
               (case cryptoKey mw of
                  Inl e \<Rightarrow> False
                | Inr key \<Rightarrow> validateSignature body key signature = Inr True)))"

text \<open>
  A request gets as far as the key: the header is there and not empty, and the body can be
  read.
\<close>

definition reaches_verification :: "Context \<Rightarrow> bool" where
  "reaches_verification c =
     (\<not> falsy (header c ''x-line-signature'') \<and> \<not> isl (arrayBuffer c))"

text \<open>The secrets for which a key derivation was started, in the order of the events.\<close>

fun derivations :: "event list \<Rightarrow> jsstring list" where
  "derivations [] = []"
| "derivations (CallImportKey s # es) = s # derivations es"
| "derivations (e # es) = derivations es"

section \<open>Base64: decoding what the encoder produced\<close>

lemma unat_byte_less: "unat (x :: byte) < 256"
  using unsigned_less [of x, where 'a = nat] by simp

lemma byte_of_nat_eqI: "m mod 256 = unat (x :: byte) \<Longrightarrow> of_nat m = x"
proof -
  assume h: "m mod 256 = unat x"
  have "(of_nat m :: byte) = of_nat (unat x)"
    unfolding word_of_nat_eq_iff by (simp add: take_bit_eq_mod h [symmetric])
  then show ?thesis by simp
qed

lemma b64_val_char: "i < 64 \<Longrightarrow> b64_val (b64_char i) = Some i"
  by (auto simp: b64_val_def b64_char_def Let_def unat_of_nat)

lemma whitespace_no_val: "is_ascii_whitespace c \<Longrightarrow> b64_val c = None"
  by (auto simp: is_ascii_whitespace_def b64_val_def)

lemma padding_no_val: "b64_val 0x3D = None"
  by (simp add: b64_val_def)

lemma split_256: "y < 256 \<Longrightarrow> ((x::nat) * 256 + y) div 256 = x \<and> (x * 256 + y) mod 256 = y"
  by simp

lemma join_64: "(n::nat) div 64 * 64 + n mod 64 = n"
  by simp

lemma decode_quad:
  fixes a b c :: byte
  defines "n \<equiv> (unat a * 256 + unat b) * 256 + unat c"
  defines "m \<equiv> ((n div 64 div 64 div 64 * 64 + n div 64 div 64 mod 64) * 64 + n div 64 mod 64) * 64 + n mod 64"
  shows "of_nat (m div 256 div 256) = a" and "of_nat (m div 256) = b" and "of_nat m = c"
proof -
  have mn: "m = n" unfolding m_def by (simp only: join_64)
  have c: "unat c < 256" and b: "unat b < 256" and a: "unat a < 256"
    by (rule unat_byte_less)+
  have d1: "n div 256 = unat a * 256 + unat b" and r1: "n mod 256 = unat c"
    unfolding n_def using split_256 [OF c] by blast+
  have d2: "n div 256 div 256 = unat a" and r2: "n div 256 mod 256 = unat b"
    unfolding d1 using split_256 [OF b] by blast+
  show "of_nat (m div 256 div 256) = a"
    unfolding mn d2 by simp
  show "of_nat (m div 256) = b"
    unfolding mn by (rule byte_of_nat_eqI) (rule r2)
  show "of_nat m = c"
    unfolding mn by (rule byte_of_nat_eqI) (rule r1)
qed

lemma decode_triple:
  fixes a b :: byte
  defines "n \<equiv> (unat a * 256 + unat b) * 4"
  defines "m \<equiv> ((n div 64 div 64 * 64 + n div 64 mod 64) * 64 + n mod 64) div 4"
  shows "of_nat (m div 256) = a" and "of_nat m = b"
proof -
  have mn: "m = unat a * 256 + unat b" unfolding m_def by (simp only: join_64) (simp add: n_def)
  have b: "unat b < 256" by (rule unat_byte_less)
  show "of_nat (m div 256) = a"
    unfolding mn using split_256 [OF b, of "unat a"] by simp
  show "of_nat m = b"
    unfolding mn by (rule byte_of_nat_eqI) (use split_256 [OF b, of "unat a"] in simp)
qed

lemma decode_pair:
  fixes a :: byte
  defines "n \<equiv> unat a * 16"
  shows "of_nat ((n div 64 * 64 + n mod 64) div 16) = a"
  by (simp only: join_64) (simp add: n_def)

lemma decode_encode_sextets: "decode_sextets (encode_sextets bs) = bs"
proof (induction bs rule: encode_sextets.induct)
  case (1 a b c rest)
  then show ?case
    using decode_quad [of a b c] by (simp add: Let_def)
next
  case (2 a b)
  then show ?case using decode_triple [of a b] by (simp add: Let_def)
next
  case (3 a)
  then show ?case using decode_pair [of a] by (simp add: Let_def)
next
  case 4
  then show ?case by simp
qed

lemma encode_sextets_less: "x \<in> set (encode_sextets bs) \<Longrightarrow> x < 64"
proof (induction bs arbitrary: x rule: encode_sextets.induct)
  case (1 a b c rest)
  have "(unat a * 256 + unat b) * 256 + unat c < 16777216"
    using unat_byte_less [of a] unat_byte_less [of b] unat_byte_less [of c] by simp
  then have "((unat a * 256 + unat b) * 256 + unat c) div 64 div 64 div 64 < 64"
    by (simp add: less_mult_imp_div_less)
  with 1 show ?case by (auto simp: Let_def)
next
  case (2 a b)
  have "(unat a * 256 + unat b) * 4 < 262144"
    using unat_byte_less [of a] unat_byte_less [of b] by simp
  then have "((unat a * 256 + unat b) * 4) div 64 div 64 < 64"
    by (simp add: less_mult_imp_div_less)
  with 2 show ?case by (auto simp: Let_def)
next
  case (3 a)
  have "unat a * 16 < 4096" using unat_byte_less [of a] by simp
  then have "(unat a * 16) div 64 < 64"
    by (simp add: less_mult_imp_div_less)
  with 3 show ?case by (auto simp: Let_def)
next
  case 4
  then show ?case by simp
qed

lemma length_encode_sextets:
  "(length (encode_sextets bs) + (3 - length bs mod 3) mod 3) mod 4 = 0
   \<and> length (encode_sextets bs) mod 4 \<noteq> 1"
proof (induction bs rule: encode_sextets.induct)
  case (1 a b c rest)
  have "length (a # b # c # rest) mod 3 = length rest mod 3" by simp
  with 1 show ?case by (simp add: Let_def)
qed (simp_all add: Let_def)

lemma strip_padding_append:
  assumes "xs = [] \<or> last xs \<noteq> 0x3D" and "k \<le> 2"
  shows "strip_padding (xs @ replicate k 0x3D) = xs"
proof -
  from \<open>k \<le> 2\<close> consider "k = 0" | "k = 1" | "k = 2" by linarith
  then show ?thesis
  proof cases
    case 1
    with assms show ?thesis by (auto simp: strip_padding_def)
  next
    case 2
    with assms show ?thesis by (auto simp: strip_padding_def)
  next
    case 3
    then have "replicate k (0x3D :: 16 word) = [0x3D, 0x3D]" by (simp add: numeral_2_eq_2)
    then show ?thesis by (simp add: strip_padding_def butlast_append)
  qed
qed

lemma forgiving_base64_decode_encodeBase64:
  "forgiving_base64_decode (encodeBase64 bs) = Some bs"
proof -
  let ?sx = "encode_sextets bs"
  let ?cs = "map b64_char ?sx"
  let ?k = "(3 - length bs mod 3) mod 3"
  have val: "\<And>c. c \<in> set ?cs \<Longrightarrow> b64_val c \<noteq> None"
    using encode_sextets_less b64_val_char by fastforce
  have nows: "filter (\<lambda>c. \<not> is_ascii_whitespace c) (encodeBase64 bs) = encodeBase64 bs"
  proof (rule filter_True)
    have "\<not> is_ascii_whitespace 0x3D" by (simp add: is_ascii_whitespace_def)
    then show "\<forall>c \<in> set (encodeBase64 bs). \<not> is_ascii_whitespace c"
      using val whitespace_no_val by (fastforce simp: encodeBase64_def)
  qed
  have len: "length (encodeBase64 bs) mod 4 = 0"
    unfolding encodeBase64_def using length_encode_sextets [of bs] by simp
  have last: "?cs = [] \<or> last ?cs \<noteq> 0x3D"
  proof (cases "?cs = []")
    case True
    then show ?thesis by blast
  next
    case False
    then have "last ?cs \<in> set ?cs" by (rule last_in_set)
    then have "b64_val (last ?cs) \<noteq> None" by (rule val)
    with padding_no_val show ?thesis by metis
  qed
  have strip: "strip_padding (encodeBase64 bs) = ?cs"
    unfolding encodeBase64_def by (rule strip_padding_append [OF last]) simp
  have len2: "length ?cs mod 4 \<noteq> 1"
    using length_encode_sextets [of bs] by simp
  have vals: "map ((\<lambda>c. the (b64_val c)) \<circ> b64_char) ?sx = ?sx"
    by (rule map_idI) (simp add: b64_val_char encode_sextets_less)
  show ?thesis
    unfolding forgiving_base64_decode_def
    using val len2 by (simp add: nows len strip vals decode_encode_sextets Let_def)
qed

lemma ucast_byte_roundtrip: "ucast (ucast (b :: byte) :: 16 word) = b"
  by (rule ucast_up_ucast_id) (simp add: is_up)

lemma decodeBase64_encodeBase64: "decodeBase64 (encodeBase64 bs) = Inr bs"
  by (simp add: decodeBase64_def atob_def forgiving_base64_decode_encodeBase64
      ucast_byte_roundtrip map_idI comp_def)

section \<open>Facts about the digest, the key import and \<open>validateSignature\<close>\<close>

lemma length_rounds: "length st = 8 \<Longrightarrow> length (rounds ks w st) = 8"
proof (induction ks arbitrary: w st)
  case Nil
  then show ?case by simp
next
  case (Cons k ks)
  from Cons.prems obtain a b c d e f g h where st: "st = [a, b, c, d, e, f, g, h]"
    by (auto simp: eval_nat_numeral length_Suc_conv)
  show ?case unfolding st by (simp add: Let_def Cons.IH)
qed

lemma length_compress: "length st = 8 \<Longrightarrow> length (compress block st) = 8"
  by (simp add: compress_def length_rounds)

lemma length_fold_compress: "length st = 8 \<Longrightarrow> length (fold compress blocks st) = 8"
  by (induction blocks arbitrary: st) (simp_all add: length_compress)

lemma length_concat_bytes_of_u32: "length (concat (map bytes_of_u32 ws)) = 4 * length ws"
  by (induction ws) (simp_all add: bytes_of_u32_def)

lemma length_sha256: "length (sha256 m) = 32"
  by (simp add: sha256_def Let_def length_concat_bytes_of_u32 length_fold_compress H256_def)

lemma length_hmac_sha256: "length (hmac_sha256 key m) = 32"
  by (simp add: hmac_sha256_def Let_def length_sha256)

lemma hmac_sha256_neq_short: "length sb \<noteq> 32 \<Longrightarrow> hmac_sha256 key m \<noteq> sb"
  using length_hmac_sha256 by blast

lemma TextEncoder_encode_eq_Nil: "TextEncoder_encode s = [] \<longleftrightarrow> s = []"
  by (cases s) (simp_all add: Let_def split: list.split)

lemma importKeyFromChannelSecret_nonempty:
  "s \<noteq> [] \<Longrightarrow> importKeyFromChannelSecret s =
     Inr \<lparr>key_data = TextEncoder_encode s, key_extractable = False, key_usages = [Verify]\<rparr>"
  by (simp add: importKeyFromChannelSecret_def subtle_importKey_def TextEncoder_encode_eq_Nil)

lemma importKeyFromChannelSecret_empty:
  "importKeyFromChannelSecret [] = Inl (DOMException ''DataError'')"
  by (simp add: importKeyFromChannelSecret_def subtle_importKey_def)

lemma importKeyFromChannelSecret_error:
  "importKeyFromChannelSecret s = Inl e \<Longrightarrow> e = DOMException ''DataError''"
  by (cases "s = []")
     (simp_all add: importKeyFromChannelSecret_empty importKeyFromChannelSecret_nonempty)

lemma validateSignature_error:
  "validateSignature body key signature = Inl e \<Longrightarrow> \<exists>name. e = DOMException name"
  by (auto simp: validateSignature_def decodeBase64_def atob_def subtle_verify_def
      split: sum.splits option.splits if_splits)

lemma arrayBuffer_error: "arrayBuffer c = Inl e \<Longrightarrow> \<exists>m. e = TypeError m"
  by (auto simp: arrayBuffer_def split: sum.splits)

lemma validateSignature_encodeBase64:
  "Verify \<in> set (key_usages key) \<Longrightarrow>
   validateSignature body key (encodeBase64 sb) = Inr (hmac_sha256 (key_data key) body = sb)"
  by (simp add: validateSignature_def decodeBase64_encodeBase64 subtle_verify_def)

lemma verify_with_secret_sign: "s \<noteq> [] \<Longrightarrow> verify_with_secret b s (sign b s) = Inr True"
  by (simp add: verify_with_secret_def importKeyFromChannelSecret_nonempty sign_def
      validateSignature_encodeBase64)

lemma header_signature: "header c ''x-line-signature'' = req_headers c ''x-line-signature''"
  by (simp add: header_def ascii_lower_def)

lemma decodeBase64_empty: "decodeBase64 [] = Inr []"
  by (simp add: decodeBase64_def atob_def forgiving_base64_decode_def strip_padding_def)

lemma validateSignature_empty: "validateSignature body key [] \<noteq> Inr True"
  by (simp add: validateSignature_def decodeBase64_empty subtle_verify_def hmac_sha256_neq_short)

lemma decodeBase64_bad: "decodeBase64 (js ''!!!!'') = Inl (DOMException ''InvalidCharacterError'')"
  by (simp add: decodeBase64_def atob_def forgiving_base64_decode_def strip_padding_def js_def
      is_ascii_whitespace_def b64_val_def)

lemma decodeBase64_AAAA: "decodeBase64 (js ''AAAA'') = Inr [0, 0, 0]"
  by (simp add: decodeBase64_def atob_def forgiving_base64_decode_def strip_padding_def js_def
      is_ascii_whitespace_def b64_val_def)

section \<open>Facts about serving requests\<close>

lemma serve_map:
  "serve mw requests
     = (map (\<lambda>(c, nxt). fst (handler mw c nxt)) requests,
        concat (map (\<lambda>(c, nxt). snd (handler mw c nxt)) requests))"
  by (induction requests) (auto simp: split_beta)

lemma derivations_append: "derivations (xs @ ys) = derivations xs @ derivations ys"
  by (induction xs rule: derivations.induct) simp_all

lemma derivations_handler: "derivations (snd (handler mw c nxt)) = []"
  by (simp add: handler_def Let_def split: sum.splits)

lemma derivations_serve: "derivations (snd (serve mw requests)) = []"
  by (induction requests) (auto simp: split_beta derivations_append derivations_handler)

lemma count_list_append: "count_list (xs @ ys) x = count_list xs x + count_list ys x"
  by (induction xs) simp_all

lemma awaits_handler:
  "count_list (snd (handler mw c nxt)) AwaitCryptoKey = (if reaches_verification c then 1 else 0)"
  by (auto simp: handler_def reaches_verification_def Let_def split: sum.splits)

lemma awaits_serve:
  "count_list (snd (serve mw requests)) AwaitCryptoKey
     = length (filter (\<lambda>(c, nxt). reaches_verification c) requests)"
  by (induction requests) (auto simp: split_beta count_list_append awaits_handler)

lemma validate_events_handler:
  "CallValidateSignature b k sg \<in> set (snd (handler mw c nxt)) \<Longrightarrow> cryptoKey mw = Inr k"
  by (auto simp: handler_def Let_def split: sum.splits if_splits)

lemma validate_events_serve:
  "CallValidateSignature b k sg \<in> set (snd (serve mw requests)) \<Longrightarrow> cryptoKey mw = Inr k"
  by (induction requests) (auto simp: split_beta dest: validate_events_handler)

lemma importKeyFromChannelSecret_closed_form:
  "importKeyFromChannelSecret s =
     (if s = [] then Inl (DOMException ''DataError'')
      else Inr \<lparr>key_data = TextEncoder_encode s, key_extractable = False,
                key_usages = [Verify]\<rparr>)"
  by (simp add: importKeyFromChannelSecret_empty importKeyFromChannelSecret_nonempty)

text \<open>
  How the handler can end without having called \<open>next\<close>: with one of its two
  \<open>HTTPException\<close>s, or with the error of a lower layer, which it lets through: the body
  read, the key promise, the Base64 decoding or the verification.
\<close>

lemma handler_failures:
  assumes "CallNext \<notin> set (snd (handler mw c nxt))"
  shows "fst (handler mw c nxt) = Inl (HTTPException 401 ''no signature'')
         \<or> fst (handler mw c nxt) = Inl (HTTPException 401 ''signature validation failed'')
         \<or> (\<exists>m. req_body c = Inl m \<and> fst (handler mw c nxt) = Inl (TypeError m))
         \<or> (\<exists>e. cryptoKey mw = Inl e \<and> fst (handler mw c nxt) = Inl e)
         \<or> fst (handler mw c nxt) = Inl (DOMException ''InvalidCharacterError'')
         \<or> fst (handler mw c nxt) = Inl (DOMException ''InvalidAccessError'')"
  using assms
  by (auto simp: handler_def Let_def arrayBuffer_def validateSignature_def decodeBase64_def
      atob_def subtle_verify_def split: sum.splits if_splits option.splits)

section \<open>The fixture of the repository's tests\<close>

text \<open>
  The tests of the repository use the secret \<open>test_secret\<close>, the body
  \<open>{"hello":"world"}\<close>, the signature \<open>t7Hn4ZDHqs6e+wdvI5TyQIvzie0DmMUmuXEBqyyE/tM=\<close>
  as the valid one, and the same with two letters changed as an invalid one. The digest is
  computed block by block: two blocks for the inner hash and two for the outer.
\<close>

lemma compress_inner_1:
  "compress
    [66, 83, 69, 66, 105, 69, 83, 85, 68, 83, 66, 54, 54, 54, 54, 54, 54,
     54, 54, 54, 54, 54, 54, 54, 54, 54, 54, 54, 54, 54, 54, 54, 54, 54,
     54, 54, 54, 54, 54, 54, 54, 54, 54, 54, 54, 54, 54, 54, 54, 54, 54,
     54, 54, 54, 54, 54, 54, 54, 54, 54, 54, 54, 54, 54]
    [1779033703, 3144134277, 1013904242, 2773480762, 1359893119,
     2600822924, 528734635, 1541459225]
   = [2217518095, 1045114269, 1640452338, 4069524039, 944921418, 516094088,
     2573980254, 1533959776]"
  by code_simp

lemma compress_inner_2:
  "compress
    [123, 34, 104, 101, 108, 108, 111, 34, 58, 34, 119, 111, 114, 108, 100,
     34, 125, 128, 0, 0, 0, 0, 0, 0, 0, 0, 0, 0, 0, 0, 0, 0, 0, 0, 0, 0, 0,
     0, 0, 0, 0, 0, 0, 0, 0, 0, 0, 0, 0, 0, 0, 0, 0, 0, 0, 0, 0, 0, 0, 0,
     0, 0, 2, 136]
    [2217518095, 1045114269, 1640452338, 4069524039, 944921418, 516094088,
     2573980254, 1533959776]
   = [1095221432, 1689054940, 2974534334, 817396203, 2610286487, 649405349,
     2103177353, 2012609409]"
  by code_simp

lemma compress_outer_1:
  "compress
    [40, 57, 47, 40, 3, 47, 57, 63, 46, 57, 40, 92, 92, 92, 92, 92, 92, 92,
     92, 92, 92, 92, 92, 92, 92, 92, 92, 92, 92, 92, 92, 92, 92, 92, 92,
     92, 92, 92, 92, 92, 92, 92, 92, 92, 92, 92, 92, 92, 92, 92, 92, 92,
     92, 92, 92, 92, 92, 92, 92, 92, 92, 92, 92, 92]
    [1779033703, 3144134277, 1013904242, 2773480762, 1359893119,
     2600822924, 528734635, 1541459225]
   = [3434442599, 1273815769, 157567280, 3595411017, 2990366968, 645823342,
     2321233046, 2935863503]"
  by code_simp

lemma compress_outer_2:
  "compress
    [65, 71, 192, 184, 100, 172, 238, 220, 177, 75, 202, 190, 48, 184, 121,
     235, 155, 149, 207, 151, 38, 181, 35, 165, 125, 91, 240, 137, 119,
     245, 251, 129, 128, 0, 0, 0, 0, 0, 0, 0, 0, 0, 0, 0, 0, 0, 0, 0, 0, 0,
     0, 0, 0, 0, 0, 0, 0, 0, 0, 0, 0, 0, 3, 0]
    [3434442599, 1273815769, 157567280, 3595411017, 2990366968, 645823342,
     2321233046, 2935863503]
   = [3081889761, 2429004494, 2667251567, 596963904, 2347993581, 60343590,
     3111190955, 746913491]"
  by code_simp

lemma replicate_numeral:
  "replicate (numeral n) x = x # replicate (pred_numeral n) x"
  by (simp add: numeral_eq_Suc)

lemma upt_0_8: "[0..<8] = [0, 1, 2, 3, 4, 5, 6, 7]"
  by (simp add: upt_rec)

lemma sha256_two_blocks:
  assumes "pad m = b1 @ b2" and "length b1 = 64" and "length b2 = 64"
  shows "sha256 m = concat (map bytes_of_u32 (compress b2 (compress b1 H256)))"
proof -
  have "chunks (length (pad m) div 64) 64 (pad m) = [b1, b2]"
    using assms by (simp add: numeral_2_eq_2)
  then show ?thesis by (simp add: sha256_def Let_def)
qed

lemma hmac_sha256_short_key:
  assumes "key @ replicate (64 - length key) 0 = k" and "length key \<le> 64"
  shows "hmac_sha256 key m
     = sha256 (map (\<lambda>b. b XOR 0x5c) k @ sha256 (map (\<lambda>b. b XOR 0x36) k @ m))"
  using assms by (auto simp: hmac_sha256_def Let_def)

lemma hmac_sha256_test_vector:
  "hmac_sha256 [116, 101, 115, 116, 95, 115, 101, 99, 114, 101, 116]
     [123, 34, 104, 101, 108, 108, 111, 34, 58, 34, 119, 111, 114, 108,
      100, 34, 125]
   = [183, 177, 231, 225, 144, 199, 170, 206, 158, 251, 7, 111, 35, 148,
      242, 64, 139, 243, 137, 237, 3, 152, 197, 38, 185, 113, 1, 171, 44,
      132, 254, 211]"
proof -
  let ?key = "[116, 101, 115, 116, 95, 115, 101, 99, 114, 101, 116] :: bytes"
  let ?body = "[123, 34, 104, 101, 108, 108, 111, 34, 58, 34, 119, 111, 114, 108,
      100, 34, 125] :: bytes"
  let ?k = "[116, 101, 115, 116, 95, 115, 101, 99, 114, 101, 116, 0, 0, 0, 0, 0,
      0, 0, 0, 0, 0, 0, 0, 0, 0, 0, 0, 0, 0, 0, 0, 0, 0, 0, 0, 0, 0, 0, 0,
      0, 0, 0, 0, 0, 0, 0, 0, 0, 0, 0, 0, 0, 0, 0, 0, 0, 0, 0, 0, 0, 0, 0,
      0, 0] :: bytes"
  let ?b1 = "[66, 83, 69, 66, 105, 69, 83, 85, 68, 83, 66, 54, 54, 54, 54, 54, 54,
      54, 54, 54, 54, 54, 54, 54, 54, 54, 54, 54, 54, 54, 54, 54, 54, 54,
      54, 54, 54, 54, 54, 54, 54, 54, 54, 54, 54, 54, 54, 54, 54, 54, 54,
      54, 54, 54, 54, 54, 54, 54, 54, 54, 54, 54, 54, 54] :: bytes"
  let ?b2 = "[123, 34, 104, 101, 108, 108, 111, 34, 58, 34, 119, 111, 114, 108,
      100, 34, 125, 128, 0, 0, 0, 0, 0, 0, 0, 0, 0, 0, 0, 0, 0, 0, 0, 0, 0,
      0, 0, 0, 0, 0, 0, 0, 0, 0, 0, 0, 0, 0, 0, 0, 0, 0, 0, 0, 0, 0, 0, 0,
      0, 0, 0, 0, 2, 136] :: bytes"
  let ?b3 = "[40, 57, 47, 40, 3, 47, 57, 63, 46, 57, 40, 92, 92, 92, 92, 92, 92,
      92, 92, 92, 92, 92, 92, 92, 92, 92, 92, 92, 92, 92, 92, 92, 92, 92,
      92, 92, 92, 92, 92, 92, 92, 92, 92, 92, 92, 92, 92, 92, 92, 92, 92,
      92, 92, 92, 92, 92, 92, 92, 92, 92, 92, 92, 92, 92] :: bytes"
  let ?ih = "[65, 71, 192, 184, 100, 172, 238, 220, 177, 75, 202, 190, 48, 184,
      121, 235, 155, 149, 207, 151, 38, 181, 35, 165, 125, 91, 240, 137,
      119, 245, 251, 129] :: bytes"
  let ?b4 = "[65, 71, 192, 184, 100, 172, 238, 220, 177, 75, 202, 190, 48, 184,
      121, 235, 155, 149, 207, 151, 38, 181, 35, 165, 125, 91, 240, 137,
      119, 245, 251, 129, 128, 0, 0, 0, 0, 0, 0, 0, 0, 0, 0, 0, 0, 0, 0, 0,
      0, 0, 0, 0, 0, 0, 0, 0, 0, 0, 0, 0, 0, 0, 3, 0] :: bytes"
  have k: "?key @ replicate (64 - length ?key) 0 = ?k"
    by (simp add: replicate_numeral)
  have l1: "length ?b1 = 64" and l2: "length ?b2 = 64"
    and l3: "length ?b3 = 64" and l4: "length ?b4 = 64" and lk: "length ?key \<le> 64"
    by simp_all
  have ip: "map (\<lambda>b. b XOR 0x36) ?k = ?b1" by simp
  have op: "map (\<lambda>b. b XOR 0x5c) ?k = ?b3" by simp
  have p1: "pad (?b1 @ ?body) = ?b1 @ ?b2"
    by (simp add: pad_def replicate_numeral upt_0_8)
  have s2: "concat (map bytes_of_u32 [1095221432, 1689054940, 2974534334, 817396203, 2610286487, 649405349,
      2103177353, 2012609409]) = ?ih"
    by code_simp
  have inner: "sha256 (?b1 @ ?body) = ?ih"
    using sha256_two_blocks [OF p1 l1 l2]
    by (simp only: H256_def compress_inner_1 compress_inner_2 s2)
  have p2: "pad (?b3 @ ?ih) = ?b3 @ ?b4"
    by (simp add: pad_def replicate_numeral upt_0_8)
  have s4: "concat (map bytes_of_u32 [3081889761, 2429004494, 2667251567, 596963904, 2347993581, 60343590,
      3111190955, 746913491]) = [183, 177, 231, 225, 144, 199, 170, 206, 158, 251, 7, 111, 35, 148,
      242, 64, 139, 243, 137, 237, 3, 152, 197, 38, 185, 113, 1, 171, 44,
      132, 254, 211]"
    by code_simp
  have outer: "sha256 (?b3 @ ?ih) = [183, 177, 231, 225, 144, 199, 170, 206, 158, 251, 7, 111, 35, 148,
      242, 64, 139, 243, 137, 237, 3, 152, 197, 38, 185, 113, 1, 171, 44,
      132, 254, 211]"
    using sha256_two_blocks [OF p2 l3 l4]
    by (simp only: H256_def compress_outer_1 compress_outer_2 s4)
  show ?thesis
    by (simp only: hmac_sha256_short_key [OF k lk] ip op inner outer)
qed

lemma TextEncoder_test_secret:
  "TextEncoder_encode (js ''test_secret'') = [116, 101, 115, 116, 95, 115, 101, 99, 114, 101, 116]"
  by (simp add: js_def)

lemma TextEncoder_test_body:
  "TextEncoder_encode (js ''{\"hello\":\"world\"}'')
     = [123, 34, 104, 101, 108, 108, 111, 34, 58, 34, 119, 111, 114, 108, 100, 34, 125]"
  by (simp add: js_def)

lemma decodeBase64_validSignature:
  "decodeBase64 (js ''t7Hn4ZDHqs6e+wdvI5TyQIvzie0DmMUmuXEBqyyE/tM='')
   = Inr [183, 177, 231, 225, 144, 199, 170, 206, 158, 251, 7, 111, 35, 148, 242, 64, 139, 243,
      137, 237, 3, 152, 197, 38, 185, 113, 1, 171, 44, 132, 254, 211]"
  by (simp add: decodeBase64_def atob_def forgiving_base64_decode_def strip_padding_def js_def
      is_ascii_whitespace_def b64_val_def)

lemma decodeBase64_invalidSignature:
  "decodeBase64 (js ''t7Hn4ZDHqs6e+wdvi5TyQivzie0DmMUmuXEBqyyE/tM='')
   = Inr [183, 177, 231, 225, 144, 199, 170, 206, 158, 251, 7, 111, 139, 148, 242, 66, 43, 243,
      137, 237, 3, 152, 197, 38, 185, 113, 1, 171, 44, 132, 254, 211]"
  by (simp add: decodeBase64_def atob_def forgiving_base64_decode_def strip_padding_def js_def
      is_ascii_whitespace_def b64_val_def)

lemma encodeBase64_digest:
  "encodeBase64 [183, 177, 231, 225, 144, 199, 170, 206, 158, 251, 7, 111, 35, 148, 242, 64, 139, 243,
      137, 237, 3, 152, 197, 38, 185, 113, 1, 171, 44, 132, 254, 211]
   = js ''t7Hn4ZDHqs6e+wdvI5TyQIvzie0DmMUmuXEBqyyE/tM=''"
  by (simp add: encodeBase64_def b64_char_def js_def Let_def)

lemma sign_fixture:
  "sign (TextEncoder_encode (js ''{\"hello\":\"world\"}'')) (js ''test_secret'')
   = js ''t7Hn4ZDHqs6e+wdvI5TyQIvzie0DmMUmuXEBqyyE/tM=''"
  by (simp only: sign_def TextEncoder_test_secret TextEncoder_test_body hmac_sha256_test_vector
      encodeBase64_digest)

lemma importKey_test_secret:
  "importKeyFromChannelSecret (js ''test_secret'')
   = Inr \<lparr>key_data = [116, 101, 115, 116, 95, 115, 101, 99, 114, 101, 116],
          key_extractable = False, key_usages = [Verify]\<rparr>"
  by (simp add: importKeyFromChannelSecret_def subtle_importKey_def TextEncoder_test_secret)

lemma validateSignature_validSignature:
  "validateSignature [123, 34, 104, 101, 108, 108, 111, 34, 58, 34, 119, 111, 114, 108, 100, 34, 125]
     \<lparr>key_data = [116, 101, 115, 116, 95, 115, 101, 99, 114, 101, 116],
      key_extractable = False, key_usages = [Verify]\<rparr>
     (js ''t7Hn4ZDHqs6e+wdvI5TyQIvzie0DmMUmuXEBqyyE/tM='') = Inr True"
  by (simp add: validateSignature_def decodeBase64_validSignature subtle_verify_def
      hmac_sha256_test_vector)

lemma validateSignature_invalidSignature:
  "validateSignature [123, 34, 104, 101, 108, 108, 111, 34, 58, 34, 119, 111, 114, 108, 100, 34, 125]
     \<lparr>key_data = [116, 101, 115, 116, 95, 115, 101, 99, 114, 101, 116],
      key_extractable = False, key_usages = [Verify]\<rparr>
     (js ''t7Hn4ZDHqs6e+wdvi5TyQivzie0DmMUmuXEBqyyE/tM='') = Inr False"
  by (simp add: validateSignature_def decodeBase64_invalidSignature subtle_verify_def
      hmac_sha256_test_vector)

text \<open>
  The decoder is forgiving: the valid signature is accepted without its padding as well.
\<close>

lemma decodeBase64_unpadded:
  "decodeBase64 (js ''t7Hn4ZDHqs6e+wdvI5TyQIvzie0DmMUmuXEBqyyE/tM'')
   = Inr [183, 177, 231, 225, 144, 199, 170, 206, 158, 251, 7, 111, 35, 148, 242, 64, 139, 243,
      137, 237, 3, 152, 197, 38, 185, 113, 1, 171, 44, 132, 254, 211]"
  by (simp add: decodeBase64_def atob_def forgiving_base64_decode_def strip_padding_def js_def
      is_ascii_whitespace_def b64_val_def)

lemma validateSignature_unpadded:
  "validateSignature [123, 34, 104, 101, 108, 108, 111, 34, 58, 34, 119, 111, 114, 108, 100, 34, 125]
     \<lparr>key_data = [116, 101, 115, 116, 95, 115, 101, 99, 114, 101, 116],
      key_extractable = False, key_usages = [Verify]\<rparr>
     (js ''t7Hn4ZDHqs6e+wdvI5TyQIvzie0DmMUmuXEBqyyE/tM'') = Inr True"
  by (simp add: validateSignature_def decodeBase64_unpadded subtle_verify_def
      hmac_sha256_test_vector)

text \<open>
  The test \<open>should accept request with valid signature\<close>: the request is forwarded, and
  the events are those of the source in their order.
\<close>

lemma scenario_accept:
  "app (JString (js ''test_secret''))
     [(\<lparr>req_headers
          = [''x-line-signature'' \<mapsto> js ''t7Hn4ZDHqs6e+wdvI5TyQIvzie0DmMUmuXEBqyyE/tM=''],
        req_body = Inr (TextEncoder_encode (js ''{\"hello\":\"world\"}''))\<rparr>, Inr ())]
   = (Inr [Inr ()],
      [CallImportKey (js ''test_secret''), CallHeader ''x-line-signature'', CallArrayBuffer,
       AwaitCryptoKey,
       CallValidateSignature (TextEncoder_encode (js ''{\"hello\":\"world\"}''))
         \<lparr>key_data = [116, 101, 115, 116, 95, 115, 101, 99, 114, 101, 116],
          key_extractable = False, key_usages = [Verify]\<rparr>
         (js ''t7Hn4ZDHqs6e+wdvI5TyQIvzie0DmMUmuXEBqyyE/tM=''),
       CallNext])"
proof -
  have ne: "js ''t7Hn4ZDHqs6e+wdvI5TyQIvzie0DmMUmuXEBqyyE/tM='' \<noteq> []" by (simp add: js_def)
  show ?thesis
    using ne
    by (simp add: app_def lineBotMiddleware_def handler_def header_signature arrayBuffer_def
        falsy_def importKey_test_secret TextEncoder_test_body validateSignature_validSignature)
qed

section \<open>Properties of the module\<close>

text \<open>
  C1. For every body, every key that has the usage \<open>verify\<close> and every signature string
  that Base64 decoding accepts, \<open>validateSignature\<close> resolves to whether the HMAC-SHA256
  digest of the body under the key is the decoded octet sequence, the whole of it: \<open>true\<close>
  if they are equal and \<open>false\<close> otherwise. A decoded signature of any length other than
  the 32 octets of the digest, a proper prefix of the digest for one, gives \<open>false\<close>. The
  equivalence holds in particular for the standard Base64 encoding of any octet sequence.
\<close>

theorem validateSignature_true_iff_digest:
  assumes "Verify \<in> set (key_usages key)"
  shows "(\<forall>signatureBytes. decodeBase64 signature = Inr signatureBytes \<longrightarrow>
            validateSignature body key signature
              = Inr (hmac_sha256 (key_data key) body = signatureBytes))
         \<and> (\<forall>signatureBytes. decodeBase64 signature = Inr signatureBytes
              \<and> length signatureBytes \<noteq> 32 \<longrightarrow>
            validateSignature body key signature = Inr False)
         \<and> validateSignature body key (encodeBase64 sb)
              = Inr (hmac_sha256 (key_data key) body = sb)"
  using assms hmac_sha256_neq_short [of _ "key_data key" body]
  by (auto simp: validateSignature_def decodeBase64_encodeBase64 subtle_verify_def)

theorem validateSignature_true_iff_digest_witness:
  "Verify \<in> set (key_usages \<lparr>key_data = [116, 101, 115, 116, 95, 115, 101, 99, 114, 101, 116],
       key_extractable = False, key_usages = [Verify]\<rparr>)
   \<and> validateSignature
        [123, 34, 104, 101, 108, 108, 111, 34, 58, 34, 119, 111, 114, 108, 100, 34, 125]
        \<lparr>key_data = [116, 101, 115, 116, 95, 115, 101, 99, 114, 101, 116],
         key_extractable = False, key_usages = [Verify]\<rparr>
        (js ''t7Hn4ZDHqs6e+wdvI5TyQIvzie0DmMUmuXEBqyyE/tM='') = Inr True
   \<and> validateSignature
        [123, 34, 104, 101, 108, 108, 111, 34, 58, 34, 119, 111, 114, 108, 100, 34, 125]
        \<lparr>key_data = [116, 101, 115, 116, 95, 115, 101, 99, 114, 101, 116],
         key_extractable = False, key_usages = [Verify]\<rparr>
        (js ''t7Hn4ZDHqs6e+wdvi5TyQivzie0DmMUmuXEBqyyE/tM='') = Inr False
   \<and> validateSignature
        [123, 34, 104, 101, 108, 108, 111, 34, 58, 34, 119, 111, 114, 108, 100, 34, 125]
        \<lparr>key_data = [116, 101, 115, 116, 95, 115, 101, 99, 114, 101, 116],
         key_extractable = False, key_usages = [Verify]\<rparr>
        (js ''AAAA'') = Inr False"
proof -
  let ?key = "\<lparr>key_data = [116, 101, 115, 116, 95, 115, 101, 99, 114, 101, 116],
       key_extractable = False, key_usages = [Verify]\<rparr>"
  let ?body = "[123, 34, 104, 101, 108, 108, 111, 34, 58, 34, 119, 111, 114, 108, 100, 34, 125] :: bytes"
  have u: "Verify \<in> set (key_usages ?key)" by simp
  from validateSignature_true_iff_digest [OF u, of "js ''t7Hn4ZDHqs6e+wdvI5TyQIvzie0DmMUmuXEBqyyE/tM=''" ?body]
  have a: "validateSignature ?body ?key (js ''t7Hn4ZDHqs6e+wdvI5TyQIvzie0DmMUmuXEBqyyE/tM='') = Inr True"
    by (simp add: decodeBase64_validSignature hmac_sha256_test_vector)
  from validateSignature_true_iff_digest [OF u, of "js ''t7Hn4ZDHqs6e+wdvi5TyQivzie0DmMUmuXEBqyyE/tM=''" ?body]
  have b: "validateSignature ?body ?key (js ''t7Hn4ZDHqs6e+wdvi5TyQivzie0DmMUmuXEBqyyE/tM='') = Inr False"
    by (simp add: decodeBase64_invalidSignature hmac_sha256_test_vector)
  from validateSignature_true_iff_digest [OF u, of "js ''AAAA''" ?body]
  have c: "validateSignature ?body ?key (js ''AAAA'') = Inr False"
    by (simp add: decodeBase64_AAAA hmac_sha256_test_vector)
  from u a b c show ?thesis by blast
qed

text \<open>
  C2. A signature string with a code unit outside the Base64 alphabet makes \<open>atob\<close> throw,
  and \<open>validateSignature\<close> does not catch it: the promise rejects with an
  \<open>InvalidCharacterError\<close> instead of resolving to \<open>false\<close>.
\<close>

theorem validateSignature_malformed_throws:
  "validateSignature body key (js ''!!!!'') = Inl (DOMException ''InvalidCharacterError'')"
  by (simp add: validateSignature_def decodeBase64_bad)

text \<open>
  C3. For every value that is not a string, \<open>null\<close>, \<open>undefined\<close> and numbers among them,
  \<open>lineBotMiddleware\<close> throws \<open>Error("no channel secret")\<close> at construction: nothing has
  happened before, and no request is ever handled. For every string it returns the handler.
\<close>

theorem lineBotMiddleware_non_string:
  "((\<forall>s. channelSecret \<noteq> JString s) \<longrightarrow>
       lineBotMiddleware channelSecret = (Inl (Error ''no channel secret''), [])
       \<and> app channelSecret requests = (Inl (Error ''no channel secret''), []))
   \<and> lineBotMiddleware (JString s)
       = (Inr \<lparr>cryptoKey = importKeyFromChannelSecret s\<rparr>, [CallImportKey s])"
  by (cases channelSecret) (simp_all add: lineBotMiddleware_def app_def)

theorem lineBotMiddleware_non_string_witness:
  "lineBotMiddleware JNull = (Inl (Error ''no channel secret''), [])
   \<and> lineBotMiddleware JUndefined = (Inl (Error ''no channel secret''), [])
   \<and> lineBotMiddleware JNumber = (Inl (Error ''no channel secret''), [])
   \<and> app JNull [(\<lparr>req_headers = Map.empty, req_body = Inr []\<rparr>, Inr ())]
       = (Inl (Error ''no channel secret''), [])"
  using lineBotMiddleware_non_string [of JNull "[(\<lparr>req_headers = Map.empty, req_body = Inr []\<rparr>, Inr ())]"]
    lineBotMiddleware_non_string [of JUndefined] lineBotMiddleware_non_string [of JNumber]
  by simp

text \<open>
  C4. Constructing the interceptor with the empty string does not fail: the handler is
  returned, closed over the promise of the key derived from the empty string.
\<close>

theorem empty_secret_accepted:
  "lineBotMiddleware (JString [])
     = (Inr \<lparr>cryptoKey = importKeyFromChannelSecret []\<rparr>, [CallImportKey []])"
  by (simp add: lineBotMiddleware_def)

text \<open>
  C4, as the code has it. Construction fails with the configuration error exactly when the
  value is not of type string; every string, the empty one included, gives a handler.
\<close>

theorem construction_fails_iff_not_string:
  "(fst (lineBotMiddleware channelSecret) = Inl (Error ''no channel secret''))
     = (typeof channelSecret \<noteq> ''string'')
   \<and> (typeof channelSecret = ''string'') = (channelSecret = JString (string_of channelSecret))
   \<and> (typeof channelSecret = ''string'' \<longrightarrow>
        fst (lineBotMiddleware channelSecret)
          = Inr \<lparr>cryptoKey = importKeyFromChannelSecret (string_of channelSecret)\<rparr>)"
  by (cases channelSecret) (simp_all add: lineBotMiddleware_def)

theorem construction_fails_iff_not_string_witness:
  "typeof (JString []) = ''string''
   \<and> fst (lineBotMiddleware (JString [])) = Inr \<lparr>cryptoKey = importKeyFromChannelSecret []\<rparr>"
  using construction_fails_iff_not_string [of "JString []"] by simp

text \<open>
  C5. A request whose header \<open>x-line-signature\<close> is \<open>!!!!\<close> is not forwarded, and it is
  not rejected with status 401 either: \<open>atob\<close> throws inside \<open>validateSignature\<close>, nothing
  catches it, and the handler fails with the \<open>InvalidCharacterError\<close>, which is no
  \<open>HTTPException\<close> and carries neither of the two reasons.
\<close>

theorem handler_malformed_signature_throws:
  "handler \<lparr>cryptoKey = importKeyFromChannelSecret (js ''test_secret'')\<rparr>
     \<lparr>req_headers = [''x-line-signature'' \<mapsto> js ''!!!!''],
      req_body = Inr (TextEncoder_encode (js ''{\"hello\":\"world\"}''))\<rparr> (Inr ())
   = (Inl (DOMException ''InvalidCharacterError''),
      [CallHeader ''x-line-signature'', CallArrayBuffer, AwaitCryptoKey,
       CallValidateSignature (TextEncoder_encode (js ''{\"hello\":\"world\"}''))
         \<lparr>key_data = [116, 101, 115, 116, 95, 115, 101, 99, 114, 101, 116],
          key_extractable = False, key_usages = [Verify]\<rparr>
         (js ''!!!!'')])"
proof -
  have ne: "js ''!!!!'' \<noteq> []" by (simp add: js_def)
  show ?thesis
    using ne
    by (simp add: handler_def header_signature arrayBuffer_def falsy_def
        importKey_test_secret validateSignature_def decodeBase64_bad)
qed

text \<open>
  C6. \<open>next\<close> is called once if signature verification succeeds and not at all otherwise;
  when it is called, the call is the last thing the handler does and the outcome of the
  handler is the outcome of \<open>next\<close>, a downstream failure included; when it is not
  called, the handler throws.
\<close>

theorem next_iff_verified:
  "count_list (snd (handler mw c nxt)) CallNext = (if verified mw c then 1 else 0)
   \<and> (verified mw c \<longrightarrow>
        fst (handler mw c nxt) = nxt \<and> last (snd (handler mw c nxt)) = CallNext)
   \<and> (\<not> verified mw c \<longrightarrow> (\<exists>e. fst (handler mw c nxt) = Inl e))"
  using validateSignature_empty
  by (auto simp: handler_def verified_def falsy_def Let_def split: option.splits sum.splits)

theorem next_iff_verified_witness:
  "verified \<lparr>cryptoKey = importKeyFromChannelSecret (js ''test_secret'')\<rparr>
     \<lparr>req_headers
        = [''x-line-signature'' \<mapsto> js ''t7Hn4ZDHqs6e+wdvI5TyQIvzie0DmMUmuXEBqyyE/tM=''],
      req_body = Inr (TextEncoder_encode (js ''{\"hello\":\"world\"}''))\<rparr>
   \<and> fst (handler \<lparr>cryptoKey = importKeyFromChannelSecret (js ''test_secret'')\<rparr>
       \<lparr>req_headers
          = [''x-line-signature'' \<mapsto> js ''t7Hn4ZDHqs6e+wdvI5TyQIvzie0DmMUmuXEBqyyE/tM=''],
        req_body = Inr (TextEncoder_encode (js ''{\"hello\":\"world\"}''))\<rparr>
       (Inl (HTTPException 403 ''downstream'')))
      = Inl (HTTPException 403 ''downstream'')
   \<and> count_list (snd (handler \<lparr>cryptoKey = importKeyFromChannelSecret (js ''test_secret'')\<rparr>
       \<lparr>req_headers
          = [''x-line-signature'' \<mapsto> js ''t7Hn4ZDHqs6e+wdvI5TyQIvzie0DmMUmuXEBqyyE/tM=''],
        req_body = Inr (TextEncoder_encode (js ''{\"hello\":\"world\"}''))\<rparr>
       (Inr ()))) CallNext = 1
   \<and> \<not> verified \<lparr>cryptoKey = importKeyFromChannelSecret (js ''test_secret'')\<rparr>
       \<lparr>req_headers
          = [''x-line-signature'' \<mapsto> js ''t7Hn4ZDHqs6e+wdvi5TyQivzie0DmMUmuXEBqyyE/tM=''],
        req_body = Inr (TextEncoder_encode (js ''{\"hello\":\"world\"}''))\<rparr>
   \<and> count_list (snd (handler \<lparr>cryptoKey = importKeyFromChannelSecret (js ''test_secret'')\<rparr>
       \<lparr>req_headers
          = [''x-line-signature'' \<mapsto> js ''t7Hn4ZDHqs6e+wdvi5TyQivzie0DmMUmuXEBqyyE/tM=''],
        req_body = Inr (TextEncoder_encode (js ''{\"hello\":\"world\"}''))\<rparr>
       (Inr ()))) CallNext = 0"
proof -
  let ?mw = "\<lparr>cryptoKey = importKeyFromChannelSecret (js ''test_secret'')\<rparr>"
  let ?body = "TextEncoder_encode (js ''{\"hello\":\"world\"}'')"
  let ?good = "js ''t7Hn4ZDHqs6e+wdvI5TyQIvzie0DmMUmuXEBqyyE/tM=''"
  let ?bad = "js ''t7Hn4ZDHqs6e+wdvi5TyQivzie0DmMUmuXEBqyyE/tM=''"
  let ?c1 = "\<lparr>req_headers = [''x-line-signature'' \<mapsto> ?good], req_body = Inr ?body\<rparr>"
  let ?c2 = "\<lparr>req_headers = [''x-line-signature'' \<mapsto> ?bad], req_body = Inr ?body\<rparr>"
  have v1: "verified ?mw ?c1"
    by (simp add: verified_def header_signature arrayBuffer_def importKey_test_secret
        TextEncoder_test_body validateSignature_validSignature)
  have v2: "\<not> verified ?mw ?c2"
    by (simp add: verified_def header_signature arrayBuffer_def importKey_test_secret
        TextEncoder_test_body validateSignature_invalidSignature)
  from next_iff_verified [of ?mw ?c1 "Inl (HTTPException 403 ''downstream'')"] v1
  have r1: "fst (handler ?mw ?c1 (Inl (HTTPException 403 ''downstream'')))
      = Inl (HTTPException 403 ''downstream'')"
    by blast
  from next_iff_verified [of ?mw ?c1 "Inr ()"] v1
  have r2: "count_list (snd (handler ?mw ?c1 (Inr ()))) CallNext = 1"
    by simp
  from next_iff_verified [of ?mw ?c2 "Inr ()"] v2
  have r3: "count_list (snd (handler ?mw ?c2 (Inr ()))) CallNext = 0"
    by simp
  from v1 v2 r1 r2 r3 show ?thesis by blast
qed

text \<open>
  C7. An application builds the interceptor from a secret and then handles any number of
  requests. The key derivation is started by the construction, before any request and also
  when there is none, and it is the only one in the whole run. Every request is handled by
  the closure over that one key promise; every request that gets as far as the key awaits
  the promise, once; and every call of \<open>validateSignature\<close> in the run is made with the key
  that this derivation gave. For such a request the handler awaits the promise after the
  body read and before the validation: if the derivation failed, its error is the outcome;
  if it gave a key, the outcome is decided by \<open>validateSignature\<close> on the body, that key
  and the header. The key itself is given by the secret alone: the HMAC key whose octets are
  the UTF-8 encoding of the secret, not extractable and usable for \<open>verify\<close> only, and no
  key for the empty secret.
\<close>

theorem key_derived_once:
  "lineBotMiddleware (JString s)
     = (Inr \<lparr>cryptoKey = importKeyFromChannelSecret s\<rparr>, [CallImportKey s])
   \<and> app (JString s) requests
     = (Inr (map (\<lambda>(c, nxt). fst (handler \<lparr>cryptoKey = importKeyFromChannelSecret s\<rparr> c nxt))
              requests),
        CallImportKey s
        # concat (map (\<lambda>(c, nxt). snd (handler \<lparr>cryptoKey = importKeyFromChannelSecret s\<rparr> c nxt))
                  requests))
   \<and> derivations (snd (app (JString s) requests)) = [s]
   \<and> count_list (snd (app (JString s) requests)) AwaitCryptoKey
       = length (filter (\<lambda>(c, nxt). reaches_verification c) requests)
   \<and> (\<forall>b k sg. CallValidateSignature b k sg \<in> set (snd (app (JString s) requests)) \<longrightarrow>
         importKeyFromChannelSecret s = Inr k)
   \<and> (\<forall>c nxt sg body.
         header c ''x-line-signature'' = Some sg \<and> sg \<noteq> [] \<and> arrayBuffer c = Inr body \<longrightarrow>
         (\<forall>e. importKeyFromChannelSecret s = Inl e \<longrightarrow>
            handler \<lparr>cryptoKey = importKeyFromChannelSecret s\<rparr> c nxt
              = (Inl e, [CallHeader ''x-line-signature'', CallArrayBuffer, AwaitCryptoKey]))
         \<and> (\<forall>k. importKeyFromChannelSecret s = Inr k \<longrightarrow>
            take 4 (snd (handler \<lparr>cryptoKey = importKeyFromChannelSecret s\<rparr> c nxt))
              = [CallHeader ''x-line-signature'', CallArrayBuffer, AwaitCryptoKey,
                 CallValidateSignature body k sg]
            \<and> fst (handler \<lparr>cryptoKey = importKeyFromChannelSecret s\<rparr> c nxt)
              = (case validateSignature body k sg of
                   Inl e \<Rightarrow> Inl e
                 | Inr isValid \<Rightarrow>
                     if isValid then nxt
                     else Inl (HTTPException 401 ''signature validation failed''))))
   \<and> importKeyFromChannelSecret s
       = (if s = [] then Inl (DOMException ''DataError'')
          else Inr \<lparr>key_data = TextEncoder_encode s, key_extractable = False,
                    key_usages = [Verify]\<rparr>)"
proof -
  let ?mw = "\<lparr>cryptoKey = importKeyFromChannelSecret s\<rparr>"
  have mk: "lineBotMiddleware (JString s) = (Inr ?mw, [CallImportKey s])"
    by (simp add: lineBotMiddleware_def)
  have ap: "app (JString s) requests
      = (Inr (fst (serve ?mw requests)), CallImportKey s # snd (serve ?mw requests))"
    by (simp add: app_def mk split_beta)
  have run: "app (JString s) requests
     = (Inr (map (\<lambda>(c, nxt). fst (handler ?mw c nxt)) requests),
        CallImportKey s # concat (map (\<lambda>(c, nxt). snd (handler ?mw c nxt)) requests))"
    by (simp add: ap serve_map)
  have once: "derivations (snd (app (JString s) requests)) = [s]"
    by (simp add: ap derivations_serve)
  have aw: "count_list (snd (app (JString s) requests)) AwaitCryptoKey
       = length (filter (\<lambda>(c, nxt). reaches_verification c) requests)"
    by (simp add: ap awaits_serve)
  have use: "\<forall>b k sg. CallValidateSignature b k sg \<in> set (snd (app (JString s) requests)) \<longrightarrow>
         importKeyFromChannelSecret s = Inr k"
    using validate_events_serve [of _ _ _ ?mw requests] by (auto simp: ap)
  have req: "\<forall>c nxt sg body.
         header c ''x-line-signature'' = Some sg \<and> sg \<noteq> [] \<and> arrayBuffer c = Inr body \<longrightarrow>
         (\<forall>e. importKeyFromChannelSecret s = Inl e \<longrightarrow>
            handler ?mw c nxt
              = (Inl e, [CallHeader ''x-line-signature'', CallArrayBuffer, AwaitCryptoKey]))
         \<and> (\<forall>k. importKeyFromChannelSecret s = Inr k \<longrightarrow>
            take 4 (snd (handler ?mw c nxt))
              = [CallHeader ''x-line-signature'', CallArrayBuffer, AwaitCryptoKey,
                 CallValidateSignature body k sg]
            \<and> fst (handler ?mw c nxt)
              = (case validateSignature body k sg of
                   Inl e \<Rightarrow> Inl e
                 | Inr isValid \<Rightarrow>
                     if isValid then nxt
                     else Inl (HTTPException 401 ''signature validation failed'')))"
    by (auto simp: handler_def falsy_def Let_def split: sum.splits)
  from mk run once aw use req importKeyFromChannelSecret_closed_form [of s]
  show ?thesis by blast
qed

theorem key_derived_once_witness:
  "importKeyFromChannelSecret (js ''test_secret'')
     = Inr \<lparr>key_data = [116, 101, 115, 116, 95, 115, 101, 99, 114, 101, 116],
            key_extractable = False, key_usages = [Verify]\<rparr>
   \<and> header \<lparr>req_headers
          = [''x-line-signature'' \<mapsto> js ''t7Hn4ZDHqs6e+wdvI5TyQIvzie0DmMUmuXEBqyyE/tM=''],
        req_body = Inr (TextEncoder_encode (js ''{\"hello\":\"world\"}''))\<rparr>
        ''x-line-signature''
       = Some (js ''t7Hn4ZDHqs6e+wdvI5TyQIvzie0DmMUmuXEBqyyE/tM='')
   \<and> take 4 (snd (handler \<lparr>cryptoKey = importKeyFromChannelSecret (js ''test_secret'')\<rparr>
        \<lparr>req_headers
           = [''x-line-signature'' \<mapsto> js ''t7Hn4ZDHqs6e+wdvI5TyQIvzie0DmMUmuXEBqyyE/tM=''],
         req_body = Inr (TextEncoder_encode (js ''{\"hello\":\"world\"}''))\<rparr> (Inr ())))
       = [CallHeader ''x-line-signature'', CallArrayBuffer, AwaitCryptoKey,
          CallValidateSignature (TextEncoder_encode (js ''{\"hello\":\"world\"}''))
            \<lparr>key_data = [116, 101, 115, 116, 95, 115, 101, 99, 114, 101, 116],
             key_extractable = False, key_usages = [Verify]\<rparr>
            (js ''t7Hn4ZDHqs6e+wdvI5TyQIvzie0DmMUmuXEBqyyE/tM='')]
   \<and> fst (handler \<lparr>cryptoKey = importKeyFromChannelSecret (js ''test_secret'')\<rparr>
        \<lparr>req_headers
           = [''x-line-signature'' \<mapsto> js ''t7Hn4ZDHqs6e+wdvI5TyQIvzie0DmMUmuXEBqyyE/tM=''],
         req_body = Inr (TextEncoder_encode (js ''{\"hello\":\"world\"}''))\<rparr> (Inr ()))
       = Inr ()
   \<and> derivations (snd (app (JString (js ''test_secret''))
        [(\<lparr>req_headers
             = [''x-line-signature'' \<mapsto> js ''t7Hn4ZDHqs6e+wdvI5TyQIvzie0DmMUmuXEBqyyE/tM=''],
           req_body = Inr (TextEncoder_encode (js ''{\"hello\":\"world\"}''))\<rparr>, Inr ()),
         (\<lparr>req_headers = Map.empty,
           req_body = Inr (TextEncoder_encode (js ''{\"hello\":\"world\"}''))\<rparr>, Inr ())]))
       = [js ''test_secret'']
   \<and> count_list (snd (app (JString (js ''test_secret''))
        [(\<lparr>req_headers
             = [''x-line-signature'' \<mapsto> js ''t7Hn4ZDHqs6e+wdvI5TyQIvzie0DmMUmuXEBqyyE/tM=''],
           req_body = Inr (TextEncoder_encode (js ''{\"hello\":\"world\"}''))\<rparr>, Inr ()),
         (\<lparr>req_headers = Map.empty,
           req_body = Inr (TextEncoder_encode (js ''{\"hello\":\"world\"}''))\<rparr>, Inr ())]))
       AwaitCryptoKey = 1"
proof -
  let ?s = "js ''test_secret''"
  let ?sg = "js ''t7Hn4ZDHqs6e+wdvI5TyQIvzie0DmMUmuXEBqyyE/tM=''"
  let ?body = "TextEncoder_encode (js ''{\"hello\":\"world\"}'')"
  let ?k = "\<lparr>key_data = [116, 101, 115, 116, 95, 115, 101, 99, 114, 101, 116],
            key_extractable = False, key_usages = [Verify]\<rparr>"
  let ?c1 = "\<lparr>req_headers = [''x-line-signature'' \<mapsto> ?sg], req_body = Inr ?body\<rparr>"
  let ?c2 = "\<lparr>req_headers = Map.empty, req_body = Inr ?body\<rparr>"
  let ?mw = "\<lparr>cryptoKey = importKeyFromChannelSecret ?s\<rparr>"
  let ?rs = "[(?c1, Inr ()), (?c2, Inr ())] :: (Context \<times> (jserror + unit)) list"
  have key: "importKeyFromChannelSecret ?s = Inr ?k" by (rule importKey_test_secret)
  have h: "header ?c1 ''x-line-signature'' = Some ?sg" by (simp add: header_signature)
  have ne: "?sg \<noteq> []" by (simp add: js_def)
  have b: "arrayBuffer ?c1 = Inr ?body" by (simp add: arrayBuffer_def)
  have v: "validateSignature ?body ?k ?sg = Inr True"
    by (simp only: TextEncoder_test_body validateSignature_validSignature)
  have r1: "reaches_verification ?c1"
    using ne by (simp add: reaches_verification_def header_signature falsy_def arrayBuffer_def)
  have r2: "\<not> reaches_verification ?c2"
    by (simp add: reaches_verification_def header_signature falsy_def)
  note main = key_derived_once [of ?s ?rs]
  from main h ne b key
  have ev: "take 4 (snd (handler ?mw ?c1 (Inr ())))
      = [CallHeader ''x-line-signature'', CallArrayBuffer, AwaitCryptoKey,
         CallValidateSignature ?body ?k ?sg]"
    by blast
  from main h ne b key
  have "fst (handler ?mw ?c1 (Inr ()))
      = (case validateSignature ?body ?k ?sg of
           Inl e \<Rightarrow> Inl e
         | Inr isValid \<Rightarrow>
             if isValid then Inr ()
             else Inl (HTTPException 401 ''signature validation failed''))"
    by blast
  then have out: "fst (handler ?mw ?c1 (Inr ())) = Inr ()" by (simp add: v)
  have once: "derivations (snd (app (JString ?s) ?rs)) = [?s]"
    by (rule main [THEN conjunct2, THEN conjunct2, THEN conjunct1])
  have "count_list (snd (app (JString ?s) ?rs)) AwaitCryptoKey
      = length (filter (\<lambda>(c, nxt). reaches_verification c) ?rs)"
    by (rule main [THEN conjunct2, THEN conjunct2, THEN conjunct2, THEN conjunct1])
  then have aw: "count_list (snd (app (JString ?s) ?rs)) AwaitCryptoKey = 1"
    using r1 r2 by simp
  from key h ev out once aw show ?thesis by blast
qed

text \<open>
  C8. With the empty secret the round trip does not give \<open>true\<close>: importing a key of length
  zero is rejected with a \<open>DataError\<close>, so there is no key to verify with.
\<close>

theorem round_trip_empty_secret:
  "verify_with_secret [] [] (sign [] []) = Inl (DOMException ''DataError'')"
  by (simp add: verify_with_secret_def importKeyFromChannelSecret_empty)

text \<open>
  C8, as the code has it. For every secret string that is not empty and every body, the
  signature computed by the reference signer is accepted: deriving the key from the secret
  and validating resolves to \<open>true\<close>.
\<close>

theorem round_trip:
  "s \<noteq> [] \<Longrightarrow> verify_with_secret b s (sign b s) = Inr True"
  by (simp add: verify_with_secret_def importKeyFromChannelSecret_nonempty sign_def
      validateSignature_encodeBase64)

theorem round_trip_witness:
  "js ''test_secret'' \<noteq> []
   \<and> sign (TextEncoder_encode (js ''{\"hello\":\"world\"}'')) (js ''test_secret'')
       = js ''t7Hn4ZDHqs6e+wdvI5TyQIvzie0DmMUmuXEBqyyE/tM=''
   \<and> verify_with_secret (TextEncoder_encode (js ''{\"hello\":\"world\"}'')) (js ''test_secret'')
       (js ''t7Hn4ZDHqs6e+wdvI5TyQIvzie0DmMUmuXEBqyyE/tM='') = Inr True"
proof -
  have ne: "js ''test_secret'' \<noteq> []" by (simp add: js_def)
  from round_trip [OF ne, of "TextEncoder_encode (js ''{\"hello\":\"world\"}'')"]
  show ?thesis using ne by (simp only: sign_fixture) simp
qed

text \<open>
  C10. When the header \<open>x-line-signature\<close> is there with the empty string as its value, the
  handler throws \<open>HTTPException(401, "no signature")\<close>, as for an absent header; the header
  lookup is its only event, so the body is not read and \<open>validateSignature\<close> is not called.
\<close>

theorem empty_signature_header:
  "header c ''x-line-signature'' = Some [] \<Longrightarrow>
   handler mw c nxt
     = (Inl (HTTPException 401 ''no signature''), [CallHeader ''x-line-signature''])"
  by (simp add: handler_def falsy_def)

theorem empty_signature_header_witness:
  "header \<lparr>req_headers = [''x-line-signature'' \<mapsto> []], req_body = Inr [1, 2]\<rparr>
     ''x-line-signature'' = Some []
   \<and> handler \<lparr>cryptoKey = importKeyFromChannelSecret (js ''test_secret'')\<rparr>
       \<lparr>req_headers = [''x-line-signature'' \<mapsto> []], req_body = Inr [1, 2]\<rparr> (Inr ())
     = (Inl (HTTPException 401 ''no signature''), [CallHeader ''x-line-signature''])"
  using empty_signature_header
    [of "\<lparr>req_headers = [''x-line-signature'' \<mapsto> []], req_body = Inr [1, 2]\<rparr>"
        "\<lparr>cryptoKey = importKeyFromChannelSecret (js ''test_secret'')\<rparr>" "Inr ()"]
  by (simp add: header_signature)

end
